theory Spec2Isabelle
  imports Complex_Main "HOL-Library.Word"
begin

section \<open>Errors\<close>

text \<open>
  Every exception the modelled code raises is a value.  The modelled functions raise
  \<^verbatim>\<open>ValueError\<close> at four places (the specification calls them ConfigurationError),
  and \<^verbatim>\<open>np.array_split\<close> raises one for a section count of 0; the message tells
  the raise sites apart.  \<^verbatim>\<open>KeyError\<close> is the failed lookup
  \<^verbatim>\<open>params_dict[name]\<close>, \<^verbatim>\<open>IndexError\<close> an out-of-range subscript and
  \<^verbatim>\<open>RuntimeError\<close> a shape mismatch reported by the tensor library.
\<close>

datatype msg =
    QuipNoTensorParallel
  | TpSizeGreaterThanExperts nat nat
  | RankHasNoExperts nat
  | UnsupportedActivation string
  | SectionsNotPositive

datatype error = ValueError msg | KeyError string | IndexError | RuntimeError

section \<open>Expert partition (qwen2\_moe.py, \<open>Qwen2MoeSparseMoeBlock.__init__\<close>)\<close>

text \<open>
  \<^verbatim>\<open>np.array_split(ary, Nsections)\<close> for an integer section count:
  \<^verbatim>\<open>
    Neach_section, extras = divmod(Ntotal, Nsections)
    section_sizes = [0] + extras * [Neach_section+1] + (Nsections-extras) * [Neach_section]
    div_points = array(section_sizes).cumsum()
    for i in range(Nsections): sub_arys.append(sary[div_points[i]:div_points[i + 1]])
  \<close>
\<close>

definition section_sizes :: "nat \<Rightarrow> nat \<Rightarrow> nat list" where
  "section_sizes Ntotal Nsections =
     (let Neach_section = Ntotal div Nsections; extras = Ntotal mod Nsections
      in 0 # replicate extras (Neach_section + 1) @ replicate (Nsections - extras) Neach_section)"

fun cumsum :: "nat \<Rightarrow> nat list \<Rightarrow> nat list" where
  "cumsum acc [] = []"
| "cumsum acc (x # xs) = (acc + x) # cumsum (acc + x) xs"

definition slice :: "'a list \<Rightarrow> nat \<Rightarrow> nat \<Rightarrow> 'a list" where
  "slice xs st en = take (en - st) (drop st xs)"

definition array_split :: "'a list \<Rightarrow> nat \<Rightarrow> error + 'a list list" where
  "array_split ary Nsections =
     (if Nsections = 0 then Inl (ValueError SectionsNotPositive)
      else let div_points = cumsum 0 (section_sizes (length ary) Nsections)
           in Inr (map (\<lambda>i. slice ary (div_points ! i) (div_points ! (i + 1))) [0..<Nsections]))"

text \<open>The whole partition is the list of all ranks' shards; a rank keeps its own entry.\<close>

definition partition_experts :: "nat \<Rightarrow> nat \<Rightarrow> error + nat list list" where
  "partition_experts n_routed_experts tp_size = array_split [0..<n_routed_experts] tp_size"


text \<open>
  The same split written as consecutive chunks of the sizes the numpy documentation
  gives (\<open>l mod n\<close> parts of size \<open>l div n + 1\<close>, the rest of size \<open>l div n\<close>);
  used to reason about \<open>array_split\<close>.
\<close>

fun chunks :: "nat list \<Rightarrow> 'a list \<Rightarrow> 'a list list" where
  "chunks [] xs = []"
| "chunks (s # ss) xs = take s xs # chunks ss (drop s xs)"

definition shard_sizes :: "nat \<Rightarrow> nat \<Rightarrow> nat list" where
  "shard_sizes n k = replicate (n mod k) (n div k + 1) @ replicate (k - n mod k) (n div k)"

section \<open>Construction of the MoE block (qwen2\_moe.py, lines 132--199)\<close>

text \<open>
  The linear method handed to the model is \<^verbatim>\<open>None\<close> (the block then uses
  \<^verbatim>\<open>UnquantizedLinearMethod()\<close>) or a quantized method; of its
  \<^verbatim>\<open>quant_config\<close> only \<^verbatim>\<open>support_fused_moe()\<close> is read here.
\<close>

record quant_config =
  support_fused_moe :: bool

type_synonym linear_method = "quant_config option"

record moe_config =
  num_experts :: nat
  num_experts_per_tok :: nat
  shared_expert_intermediate_size :: nat
  hidden_act :: string
  norm_topk_prob :: bool

text \<open>
  \<^verbatim>\<open>not isinstance(self.linear_method, UnquantizedLinearMethod) and
  not self.linear_method.quant_config.support_fused_moe()\<close>: the per-expert (dense, local)
  layout.
\<close>

definition dense_mode :: "linear_method \<Rightarrow> bool" where
  "dense_mode lm = (case lm of None \<Rightarrow> False | Some qc \<Rightarrow> \<not> support_fused_moe qc)"

text \<open>\<open>Qwen2MoeMLP.__init__\<close> (the shared expert), lines 75--77.\<close>

definition Qwen2MoeMLP_init :: "string \<Rightarrow> error + unit" where
  "Qwen2MoeMLP_init act =
     (if act \<noteq> ''silu'' then Inl (ValueError (UnsupportedActivation act)) else Inr ())"

datatype expert_storage =
    LocalExperts (expert_indicies: "nat list") (experts: "bool list")
  | FusedExperts

record moe_block =
  blk_rank :: nat
  blk_tp_size :: nat
  n_routed_experts :: nat
  top_k :: nat
  has_shared_expert :: bool
  storage :: expert_storage

text \<open>
  \<open>experts\<close> records, for every expert id, whether a module was built
  (\<^verbatim>\<open>... if idx in self.expert_indicies else None\<close>).
\<close>

definition Qwen2MoeSparseMoeBlock_init ::
    "moe_config \<Rightarrow> linear_method \<Rightarrow> nat \<Rightarrow> nat \<Rightarrow> error + moe_block" where
  "Qwen2MoeSparseMoeBlock_init config lm rank tp_size =
     (if tp_size > num_experts config
      then Inl (ValueError (TpSizeGreaterThanExperts tp_size (num_experts config)))
      else
        case (if shared_expert_intermediate_size config > 0
              then Qwen2MoeMLP_init (hidden_act config) else Inr ()) of
          Inl e \<Rightarrow> Inl e
        | Inr _ \<Rightarrow>
            let blk = \<lparr>blk_rank = rank, blk_tp_size = tp_size,
                       n_routed_experts = num_experts config,
                       top_k = num_experts_per_tok config,
                       has_shared_expert = (shared_expert_intermediate_size config > 0),
                       storage = FusedExperts\<rparr>
            in if dense_mode lm then
                 (case partition_experts (num_experts config) tp_size of
                    Inl e \<Rightarrow> Inl e
                  | Inr parts \<Rightarrow>
                      if rank < length parts then
                        (let idxs = parts ! rank
                         in if idxs = [] then Inl (ValueError (RankHasNoExperts rank))
                            else Inr (blk\<lparr>storage := LocalExperts idxs
                                   (map (\<lambda>idx. idx \<in> set idxs) [0..<num_experts config])\<rparr>))
                      else Inl IndexError)
               else Inr blk)"

section \<open>Dense (local) expert combination (qwen2\_moe.py, lines 217--233)\<close>









section \<open>Checkpoint loading (qwen2\_moe.py, \<open>load_weights\<close>, lines 480--564)\<close>

subsection \<open>Python string operations\<close>

text \<open>\<^verbatim>\<open>sub in s\<close>\<close>

fun py_in :: "string \<Rightarrow> string \<Rightarrow> bool" where
  "py_in sub [] = (sub = [])"
| "py_in sub (c # cs) = (take (length sub) (c # cs) = sub \<or> py_in sub cs)"

text \<open>\<^verbatim>\<open>s.endswith(suf)\<close>\<close>

definition endswith :: "string \<Rightarrow> string \<Rightarrow> bool" where
  "endswith s suf = (length suf \<le> length s \<and> drop (length s - length suf) s = suf)"

text \<open>
  \<^verbatim>\<open>s.replace(old, new)\<close>: every non-overlapping occurrence, from the left; an empty
  \<open>old\<close> matches before every character and at the end.
\<close>

function py_replace :: "string \<Rightarrow> string \<Rightarrow> string \<Rightarrow> string" where
  "py_replace old new s =
     (if old = [] then new @ concat (map (\<lambda>c. c # new) s)
      else if s = [] then []
      else if take (length old) s = old then new @ py_replace old new (drop (length old) s)
      else hd s # py_replace old new (tl s))"
  by pat_completeness auto
termination
  by (relation "measure (\<lambda>(old, new, s). length s)") auto

declare py_replace.simps [simp del]

text \<open>\<^verbatim>\<open>str(n)\<close> for a non-negative integer, as the f-string of the table uses it.\<close>

definition digit :: "nat \<Rightarrow> char" where
  "digit d = ''0123456789'' ! d"

function str_nat :: "nat \<Rightarrow> string" where
  "str_nat n = (if n < 10 then [digit n] else str_nat (n div 10) @ [digit (n mod 10)])"
  by pat_completeness auto
termination
  by (relation "measure id") auto

declare str_nat.simps [simp del]

subsection \<open>The mapping tables\<close>

datatype shard_id = ShardName string | ShardIdx nat

definition stacked_params_mapping :: "(string \<times> string \<times> shard_id) list" where
  "stacked_params_mapping =
     [(''qkv_proj'', ''q_proj'', ShardName ''q''),
      (''qkv_proj'', ''k_proj'', ShardName ''k''),
      (''qkv_proj'', ''v_proj'', ShardName ''v''),
      (''mlp.gate_up_proj'', ''mlp.gate_proj'', ShardIdx 0),
      (''mlp.gate_up_proj'', ''mlp.up_proj'', ShardIdx 1),
      (''shared_expert.gate_up_proj'', ''shared_expert.gate_proj'', ShardIdx 0),
      (''shared_expert.gate_up_proj'', ''shared_expert.up_proj'', ShardIdx 1)]"

text \<open>
  Lines 496--505.  The comprehension runs over the expert ids and, for each, over the
  three projections; its guard is \<^verbatim>\<open>self.linear_method is None or
  self.linear_method.quant_config.support_fused_moe()\<close>.
\<close>

definition expert_params_mapping ::
    "nat \<Rightarrow> linear_method \<Rightarrow> (string \<times> string \<times> shard_id option \<times> nat) list" where
  "expert_params_mapping n lm =
     (if (case lm of None \<Rightarrow> True | Some qc \<Rightarrow> support_fused_moe qc) then
        concat (map (\<lambda>expert_id.
          map (\<lambda>(weight_name, shard_id).
                 (if weight_name \<in> set [''gate_proj'', ''up_proj''] then ''w1'' else ''w2'',
                  ''experts.'' @ str_nat expert_id @ ''.'' @ weight_name,
                  shard_id, expert_id))
              [(''gate_proj'', Some (ShardIdx 0)), (''up_proj'', Some (ShardIdx 1)),
               (''down_proj'', None)])
          [0..<n])
      else [])"

subsection \<open>One entry of the checkpoint stream\<close>

text \<open>
  \<open>params_dict\<close> maps a parameter name to the parameter; a parameter is modelled by the
  loads it has received, each the loaded tensor with the shard and expert arguments of
  the loader call.  An entry ends in a loader call, in a skip (\<^verbatim>\<open>continue\<close> of the
  outer loop) or in the \<^verbatim>\<open>KeyError\<close> of \<^verbatim>\<open>params_dict[name]\<close>.
\<close>

type_synonym 'w load = "'w \<times> shard_id option \<times> nat option"

type_synonym 'w params = "string \<rightharpoonup> 'w load list"

datatype 'w outcome = Loaded string "'w load" | Skipped string | Raised error

datatype 'w loop_exit = NoBreak string | Exit "'w outcome"

text \<open>\<^verbatim>\<open>name.endswith(".bias") and name not in params_dict\<close>\<close>

definition extra_bias :: "'w params \<Rightarrow> string \<Rightarrow> bool" where
  "extra_bias params_dict name = (endswith name ''.bias'' \<and> params_dict name = None)"

text \<open>
  \<^verbatim>\<open>("mlp.experts." in name or "mlp.shared_expert." in name) and name not in params_dict\<close>
\<close>

definition names_expert :: "string \<Rightarrow> bool" where
  "names_expert name = (py_in ''mlp.experts.'' name \<or> py_in ''mlp.shared_expert.'' name)"

definition unassigned_expert :: "'w params \<Rightarrow> string \<Rightarrow> bool" where
  "unassigned_expert params_dict name = (names_expert name \<and> params_dict name = None)"

text \<open>
  The loop over \<open>stacked_params_mapping\<close> (lines 517--531).  A \<^verbatim>\<open>continue\<close> after the
  rename goes on with the next table entry and the renamed \<open>name\<close>; \<open>NoBreak\<close> is the
  loop running to its end, which enters the \<^verbatim>\<open>else\<close> branch.
\<close>

fun stacked_loop ::
    "'w params \<Rightarrow> 'w \<Rightarrow> (string \<times> string \<times> shard_id) list \<Rightarrow> string \<Rightarrow> 'w loop_exit" where
  "stacked_loop params_dict loaded_weight [] name = NoBreak name"
| "stacked_loop params_dict loaded_weight ((param_name, weight_name, shard_id) # rest) name =
     (if \<not> py_in weight_name name then stacked_loop params_dict loaded_weight rest name
      else let name = py_replace weight_name param_name name in
        if extra_bias params_dict name then stacked_loop params_dict loaded_weight rest name
        else if unassigned_expert params_dict name
        then stacked_loop params_dict loaded_weight rest name
        else (case params_dict name of
                None \<Rightarrow> Exit (Raised (KeyError name))
              | Some param \<Rightarrow> Exit (Loaded name (loaded_weight, Some shard_id, None))))"

text \<open>The loop over \<open>expert_params_mapping\<close> (lines 533--551).\<close>

fun expert_loop ::
    "'w params \<Rightarrow> 'w \<Rightarrow> (string \<times> string \<times> shard_id option \<times> nat) list \<Rightarrow> string
      \<Rightarrow> 'w loop_exit" where
  "expert_loop params_dict loaded_weight [] name = NoBreak name"
| "expert_loop params_dict loaded_weight ((param_name, weight_name, shard_id, expert_id) # rest)
      name =
     (if \<not> py_in weight_name name then expert_loop params_dict loaded_weight rest name
      else let name = py_replace weight_name param_name name in
        if extra_bias params_dict name then expert_loop params_dict loaded_weight rest name
        else (case params_dict name of
                None \<Rightarrow> Exit (Raised (KeyError name))
              | Some param \<Rightarrow> Exit (Loaded name (loaded_weight, shard_id, Some expert_id))))"

text \<open>The innermost \<^verbatim>\<open>else\<close> (lines 552--564): the name as it stands, the whole tensor.\<close>

definition default_load :: "'w params \<Rightarrow> 'w \<Rightarrow> string \<Rightarrow> 'w outcome" where
  "default_load params_dict loaded_weight name =
     (if extra_bias params_dict name then Skipped name
      else if unassigned_expert params_dict name then Skipped name
      else (case params_dict name of
              None \<Rightarrow> Raised (KeyError name)
            | Some param \<Rightarrow> Loaded name (loaded_weight, None, None)))"

definition load_entry ::
    "'w params \<Rightarrow> (string \<times> string \<times> shard_id option \<times> nat) list \<Rightarrow> string \<Rightarrow> 'w
      \<Rightarrow> 'w outcome" where
  "load_entry params_dict expert_mapping name loaded_weight =
     (if py_in ''rotary_emb.inv_freq'' name then Skipped name
      else case stacked_loop params_dict loaded_weight stacked_params_mapping name of
             Exit r \<Rightarrow> r
           | NoBreak name \<Rightarrow>
               (case expert_loop params_dict loaded_weight expert_mapping name of
                  Exit r \<Rightarrow> r
                | NoBreak name \<Rightarrow> default_load params_dict loaded_weight name))"



section \<open>Quantized linear layer (quip.py)\<close>

subsection \<open>Tensors\<close>

text \<open>
  A tensor is its shape and its entries in row-major order; the two-dimensional
  intermediate values are kept as rows with their column count (a matrix without rows
  still has one).  Entries are \<open>real\<close>: exact arithmetic, no rounding.
\<close>

record tensor =
  shape :: "nat list"
  data :: "real list"


record mat =
  ncols :: nat
  rows :: "real list list"

definition nrows :: "mat \<Rightarrow> nat" where
  "nrows m = length (rows m)"

definition wf_mat :: "mat \<Rightarrow> bool" where
  "wf_mat m = (\<forall>r\<in>set (rows m). length r = ncols m)"

definition err_bind :: "error + 'a \<Rightarrow> ('a \<Rightarrow> error + 'b) \<Rightarrow> error + 'b" where
  "err_bind m f = (case m of Inl e \<Rightarrow> Inl e | Inr v \<Rightarrow> f v)"

text \<open>
  \<^verbatim>\<open>x.reshape(-1, x.shape[-1])\<close>: a tensor without dimensions has no \<^verbatim>\<open>shape[-1]\<close>,
  and the row count cannot be inferred for a last dimension of 0.
\<close>

definition reshape_rows :: "tensor \<Rightarrow> error + mat" where
  "reshape_rows x =
     (if shape x = [] then Inl IndexError
      else let d = last (shape x)
           in if d = 0 \<or> length (data x) mod d \<noteq> 0 then Inl RuntimeError
              else Inr \<lparr>ncols = d,
                        rows = map (\<lambda>i. take d (drop (i * d) (data x)))
                                 [0..<length (data x) div d]\<rparr>)"

text \<open>
  An elementwise operation of a matrix \<open>[N, c]\<close> with a vector \<open>[s]\<close>, with the
  broadcasting of the tensor library: the sizes agree, or one of them is 1.
\<close>

definition bcast_vec :: "(real \<Rightarrow> real \<Rightarrow> real) \<Rightarrow> mat \<Rightarrow> real list \<Rightarrow> error + mat" where
  "bcast_vec f m v =
     (if length v = ncols m then Inr \<lparr>ncols = ncols m, rows = map (\<lambda>r. map2 f r v) (rows m)\<rparr>
      else if length v = 1
      then Inr \<lparr>ncols = ncols m, rows = map (map (\<lambda>a. f a (hd v))) (rows m)\<rparr>
      else if ncols m = 1
      then Inr \<lparr>ncols = length v, rows = map (\<lambda>r. map (f (hd r)) v) (rows m)\<rparr>
      else Inl RuntimeError)"

text \<open>\<^verbatim>\<open>out[..., :out_dim]\<close>\<close>

definition take_cols :: "nat \<Rightarrow> mat \<Rightarrow> mat" where
  "take_cols k m = \<lparr>ncols = min k (ncols m), rows = map (take k) (rows m)\<rparr>"

text \<open>\<^verbatim>\<open>out.view(*x.shape[:-1], out.shape[-1])\<close>: the element counts must agree.\<close>

definition view_as :: "nat list \<Rightarrow> mat \<Rightarrow> error + tensor" where
  "view_as lead m =
     (if prod_list lead * ncols m = nrows m * ncols m
      then Inr \<lparr>shape = lead @ [ncols m], data = concat (rows m)\<rparr>
      else Inl RuntimeError)"

text \<open>\<^verbatim>\<open>out + bias\<close> for a tensor and a vector, broadcast along the last dimension.\<close>

definition add_bias :: "tensor \<Rightarrow> real list \<Rightarrow> error + tensor" where
  "add_bias t b =
     (case shape t of
        [] \<Rightarrow> Inr \<lparr>shape = [length b], data = map (\<lambda>y. hd (data t) + y) b\<rparr>
      | _ # _ \<Rightarrow>
          let c = last (shape t) in
          if length b = c
          then Inr \<lparr>shape = shape t,
                    data = map (\<lambda>i. data t ! i + b ! (i mod c)) [0..<length (data t)]\<rparr>
          else if length b = 1
          then Inr \<lparr>shape = shape t, data = map (\<lambda>a. a + hd b) (data t)\<rparr>
          else if c = 1
          then Inr \<lparr>shape = butlast (shape t) @ [length b],
                    data = concat (map (\<lambda>a. map (\<lambda>y. a + y) b) (data t))\<rparr>
          else Inl RuntimeError)"

definition dot :: "real list \<Rightarrow> real list \<Rightarrow> real" where
  "dot a b = sum_list (map2 (*) a b)"

text \<open>\<^verbatim>\<open>x @ W.T\<close>: the inner dimensions must agree.\<close>

definition matmul_T :: "mat \<Rightarrow> mat \<Rightarrow> error + mat" where
  "matmul_T x W =
     (if ncols x \<noteq> ncols W then Inl RuntimeError
      else Inr \<lparr>ncols = nrows W, rows = map (\<lambda>xr. map (dot xr) (rows W)) (rows x)\<rparr>)"

text \<open>\<^verbatim>\<open>torch.empty(m, k)\<close>; the unspecified contents are modelled as zeros.\<close>

definition empty_mat :: "nat \<Rightarrow> nat \<Rightarrow> mat" where
  "empty_mat m k = \<lparr>ncols = k, rows = replicate m (replicate k 0)\<rparr>"

subsection \<open>The weight store\<close>

type_synonym had = "real list list"

text \<open>\<open>Qidxs\<close>: a two-dimensional tensor of \<^verbatim>\<open>int16\<close> codes.\<close>

record qidxs =
  qrows :: nat
  qcols :: nat
  qdata :: "16 word list list"

definition wf_qidxs :: "qidxs \<Rightarrow> bool" where
  "wf_qidxs Q = (length (qdata Q) = qrows Q \<and> (\<forall>r\<in>set (qdata Q). length r = qcols Q))"

record quip_weights =
  K_left :: nat
  K_right :: nat
  q_in_features :: nat
  q_out_features :: nat
  had_left :: "had option"
  had_right :: "had option"
  Qidxs :: qidxs
  SU :: "real list"
  SV :: "real list"

text \<open>\<^verbatim>\<open>self.pack = 8\<close>\<close>

definition pack :: nat where
  "pack = 8"

text \<open>
  \<open>create_weights\<close> (lines 84--139).  \<^verbatim>\<open>get_hadK\<close> belongs to \<^verbatim>\<open>quip_utils\<close>, which is
  not among the sources: it is a parameter, returning the rotation matrix (if any), its
  block count and the padded feature count.  The parameters are allocated with
  \<^verbatim>\<open>torch.empty\<close>; their contents are modelled as zeros.
\<close>

definition create_weights ::
    "(nat \<Rightarrow> had option \<times> nat \<times> nat) \<Rightarrow> nat \<Rightarrow> nat \<Rightarrow> nat \<Rightarrow> nat \<Rightarrow> error + quip_weights" where
  "create_weights get_hadK input_size_per_partition output_size_per_partition
      input_size output_size =
     (if input_size \<noteq> input_size_per_partition \<or> output_size \<noteq> output_size_per_partition
      then Inl (ValueError QuipNoTensorParallel)
      else
        let (hl, Kl, q_in) = get_hadK input_size;
            (hr, Kr, q_out) = get_hadK output_size
        in Inr \<lparr>K_left = Kl, K_right = Kr, q_in_features = q_in, q_out_features = q_out,
                 had_left = hl, had_right = hr,
                 Qidxs = \<lparr>qrows = q_out, qcols = q_in div pack,
                          qdata = replicate q_out (replicate (q_in div pack) 0)\<rparr>,
                 SU = replicate input_size 0, SV = replicate output_size 0\<rparr>)"

subsection \<open>Applying the layer\<close>

text \<open>
  The device kernels (\<^verbatim>\<open>matmul_hadUt_cuda\<close> and \<^verbatim>\<open>matmul_hadU_cuda\<close> of
  \<^verbatim>\<open>quip_utils\<close>, \<^verbatim>\<open>ops.quip_gemv\<close> and \<^verbatim>\<open>ops.quip_decompress\<close>) are not among the
  sources either; \<open>apply_weights\<close> takes them as parameters, and so the codebook table
  \<open>grid_packed_abs\<close> of type \<open>'g\<close>.  \<open>quip_decompress\<close> receives the buffer it fills.
\<close>

record 'g kernels =
  matmul_hadUt_cuda :: "mat \<Rightarrow> had option \<Rightarrow> nat \<Rightarrow> nat \<Rightarrow> error + mat"
  matmul_hadU_cuda :: "mat \<Rightarrow> had option \<Rightarrow> nat \<Rightarrow> nat \<Rightarrow> error + mat"
  quip_gemv :: "mat \<Rightarrow> qidxs \<Rightarrow> 'g \<Rightarrow> error + mat"
  quip_decompress :: "qidxs \<Rightarrow> 'g \<Rightarrow> mat \<Rightarrow> error + mat"

text \<open>\<open>apply_weights\<close> (lines 141--172), statement by statement.\<close>

definition apply_weights ::
    "'g kernels \<Rightarrow> 'g \<Rightarrow> quip_weights \<Rightarrow> tensor \<Rightarrow> real list option \<Rightarrow> error + tensor" where
  "apply_weights K grid_packed_abs weights x bias =
     err_bind (reshape_rows x) (\<lambda>reshaped_x.
     let out_dim = length (SV weights) in
     err_bind (bcast_vec (*) reshaped_x (SU weights)) (\<lambda>reshaped_x.
     err_bind (matmul_hadUt_cuda K reshaped_x (had_left weights) (K_left weights)
                 (q_in_features weights)) (\<lambda>reshaped_x.
     let m = qrows (Qidxs weights); n = qcols (Qidxs weights) in
     err_bind
       (if nrows reshaped_x < 32
        then quip_gemv K reshaped_x (Qidxs weights) grid_packed_abs
        else err_bind (quip_decompress K (Qidxs weights) grid_packed_abs (empty_mat m (n * 8)))
               (\<lambda>W_decompressed. matmul_T reshaped_x W_decompressed)) (\<lambda>out.
     err_bind (matmul_hadU_cuda K out (had_right weights) (K_right weights)
                 (q_out_features weights)) (\<lambda>out.
     err_bind (bcast_vec (*) (take_cols out_dim out) (SV weights)) (\<lambda>out.
     err_bind (view_as (butlast (shape x)) out) (\<lambda>out.
     (case bias of None \<Rightarrow> Inr out | Some b \<Rightarrow> add_bias out b))))))))"

subsection \<open>The stages of \<open>apply_weights\<close>, named\<close>

text \<open>Lines 145--151: flatten, scale by \<open>SU\<close>, forward rotation.\<close>

definition rotated_input :: "'g kernels \<Rightarrow> quip_weights \<Rightarrow> tensor \<Rightarrow> error + mat" where
  "rotated_input K weights x =
     err_bind (reshape_rows x) (\<lambda>rx.
     err_bind (bcast_vec (*) rx (SU weights)) (\<lambda>rx.
       matmul_hadUt_cuda K rx (had_left weights) (K_left weights) (q_in_features weights)))"

text \<open>The row count of \<^verbatim>\<open>x.reshape(-1, x.shape[-1])\<close>.\<close>

definition flat_rows :: "tensor \<Rightarrow> nat" where
  "flat_rows x = length (data x) div last (shape x)"

text \<open>Lines 155--157: the gather-and-accumulate kernel.\<close>

definition gemv_product :: "'g kernels \<Rightarrow> 'g \<Rightarrow> quip_weights \<Rightarrow> mat \<Rightarrow> error + mat" where
  "gemv_product K g weights rx = quip_gemv K rx (Qidxs weights) g"

text \<open>Lines 159--165: dequantize into a dense matrix, then a dense product.\<close>

definition dense_product :: "'g kernels \<Rightarrow> 'g \<Rightarrow> quip_weights \<Rightarrow> mat \<Rightarrow> error + mat" where
  "dense_product K g weights rx =
     err_bind (quip_decompress K (Qidxs weights) g
                 (empty_mat (qrows (Qidxs weights)) (qcols (Qidxs weights) * 8)))
       (\<lambda>W_decompressed. matmul_T rx W_decompressed)"

text \<open>Lines 167--169: backward rotation, truncation to \<open>out_dim\<close>, scaling by \<open>SV\<close>.\<close>

definition scaled_output :: "'g kernels \<Rightarrow> quip_weights \<Rightarrow> mat \<Rightarrow> error + mat" where
  "scaled_output K weights out =
     err_bind (matmul_hadU_cuda K out (had_right weights) (K_right weights)
                 (q_out_features weights))
       (\<lambda>out. bcast_vec (*) (take_cols (length (SV weights)) out) (SV weights))"

text \<open>Lines 170--171, the order of the code: reshape, then add the bias.\<close>

definition view_then_bias :: "tensor \<Rightarrow> real list option \<Rightarrow> mat \<Rightarrow> error + tensor" where
  "view_then_bias x bias out =
     err_bind (view_as (butlast (shape x)) out)
       (\<lambda>out. case bias of None \<Rightarrow> Inr out | Some b \<Rightarrow> add_bias out b)"

subsection \<open>The order of the specification\<close>



subsection \<open>Contracts of the device kernels\<close>






subsection \<open>The product kernels of the specification\<close>

text \<open>
  Modelled from the spec: \<^verbatim>\<open>ops.quip_gemv\<close> is a compiled kernel that is not among the
  sources.  Specification 4.1, step 4: "compute y directly via a fused
  gather-and-accumulate over codebook vectors indexed by packedIndices, without
  materializing a dense matrix".  The codebook maps a code to its vector of \<open>pack = 8\<close>
  weights; each code of a row of \<open>Qidxs\<close> gathers its vector and accumulates the product
  with the next eight entries of the input row.
\<close>

fun gather_accumulate :: "(16 word \<Rightarrow> real list) \<Rightarrow> real list \<Rightarrow> 16 word list \<Rightarrow> real" where
  "gather_accumulate codebook xr [] = 0"
| "gather_accumulate codebook xr (q # qs) =
     dot (take 8 xr) (codebook q) + gather_accumulate codebook (drop 8 xr) qs"

definition quip_gemv_spec :: "mat \<Rightarrow> qidxs \<Rightarrow> (16 word \<Rightarrow> real list) \<Rightarrow> error + mat" where
  "quip_gemv_spec x Q codebook =
     Inr \<lparr>ncols = qrows Q,
          rows = map (\<lambda>xr. map (gather_accumulate codebook xr) (qdata Q)) (rows x)\<rparr>"

text \<open>
  Modelled from the spec: \<^verbatim>\<open>ops.quip_decompress\<close> is a compiled kernel that is not among
  the sources.  Specification 4.1, step 4: "fully dequantize packedIndices through the
  codebook into a dense matrix of shape (paddedOutputFeatures, paddedInputFeatures)":
  every code is replaced by its codebook vector.
\<close>

definition quip_decompress_spec ::
    "qidxs \<Rightarrow> (16 word \<Rightarrow> real list) \<Rightarrow> mat \<Rightarrow> error + mat" where
  "quip_decompress_spec Q codebook buf =
     Inr \<lparr>ncols = ncols buf, rows = map (\<lambda>qr. concat (map codebook qr)) (qdata Q)\<rparr>"

text \<open>
  Modelled from the spec: the rotation kernels of \<^verbatim>\<open>quip_utils\<close> are not among the
  sources.  Specification 4.1, step 3: "zero-pad then rotate; identity if no rotation
  configured".  This is the kernel for a layer without rotation matrix: the rows are
  padded with zeros to \<open>n\<close> entries and otherwise unchanged.  It serves as the concrete
  kernel of the worked examples.
\<close>

definition pad_rotate :: "mat \<Rightarrow> had option \<Rightarrow> nat \<Rightarrow> nat \<Rightarrow> error + mat" where
  "pad_rotate m h k n =
     (if ncols m \<le> n
      then Inr \<lparr>ncols = n, rows = map (\<lambda>r. r @ replicate (n - length r) 0) (rows m)\<rparr>
      else Inl RuntimeError)"

definition spec_kernels :: "(16 word \<Rightarrow> real list) kernels" where
  "spec_kernels = \<lparr>matmul_hadUt_cuda = pad_rotate, matmul_hadU_cuda = pad_rotate,
                    quip_gemv = quip_gemv_spec, quip_decompress = quip_decompress_spec\<rparr>"

text \<open>
  Modelled from the spec: \<^verbatim>\<open>get_hadK\<close> of \<^verbatim>\<open>quip_utils\<close> is not among the sources.
  Specification 3 and 8: a size that is already a supported transform block, such as an
  exact power of two, has no rotation matrix and is not padded.  Only such sizes are
  evaluated with this function.
\<close>

definition get_hadK_block :: "nat \<Rightarrow> had option \<times> nat \<times> nat" where
  "get_hadK_block n = (None, 1, n)"

subsection \<open>A worked layer\<close>

text \<open>
  Eight input features, two output features, no rotation matrix; the codebook vector of
  a code repeats the code eight times.
\<close>

definition example_codebook :: "16 word \<Rightarrow> real list" where
  "example_codebook q = replicate 8 (real (unat q))"

definition example_weights :: quip_weights where
  "example_weights =
     \<lparr>K_left = 1, K_right = 1, q_in_features = 8, q_out_features = 2,
      had_left = None, had_right = None,
      Qidxs = \<lparr>qrows = 2, qcols = 1, qdata = [[1], [2]]\<rparr>,
      SU = [1, 1, 1, 1, 1, 1, 1, 1], SV = [1, 1/2]\<rparr>"

definition example_input :: tensor where
  "example_input =
     \<lparr>shape = [2, 1, 8], data = [1, 0, 0, 0, 0, 0, 0, 1, 0, 1, 0, 0, 0, 0, 0, 0]\<rparr>"

definition example_batch :: tensor where
  "example_batch = \<lparr>shape = [32, 8], data = concat (replicate 32 [1, 0, 0, 0, 0, 0, 0, 1])\<rparr>"

text \<open>
  The kernels of the worked layer with a gather-and-accumulate kernel that only reports
  an error: a result shows whether that kernel was called.
\<close>

definition failing_gemv_kernels :: "(16 word \<Rightarrow> real list) kernels" where
  "failing_gemv_kernels = spec_kernels\<lparr>quip_gemv := (\<lambda>x Q g. Inl RuntimeError)\<rparr>"

section \<open>Partition: auxiliary facts\<close>

lemma length_cumsum: "length (cumsum a ss) = length ss"
  by (induction ss arbitrary: a) auto

lemma cumsum_nth: "i < length ss \<Longrightarrow> cumsum a ss ! i = a + sum_list (take (Suc i) ss)"
proof (induction ss arbitrary: a i)
  case Nil
  then show ?case by simp
next
  case (Cons s ss)
  then show ?case by (cases i) (auto simp: add.assoc)
qed

lemma length_chunks: "length (chunks ss xs) = length ss"
  by (induction ss arbitrary: xs) auto

lemma chunks_nth:
  "i < length ss \<Longrightarrow> chunks ss xs ! i = take (ss ! i) (drop (sum_list (take i ss)) xs)"
proof (induction ss arbitrary: xs i)
  case Nil
  then show ?case by simp
next
  case (Cons s ss)
  then show ?case by (cases i) (auto simp: add.commute)
qed

lemma concat_chunks: "concat (chunks ss xs) = take (sum_list ss) xs"
proof (induction ss arbitrary: xs)
  case Nil
  then show ?case by simp
next
  case (Cons s ss)
  have "take s xs @ take (sum_list ss) (drop s xs) = take (s + sum_list ss) xs"
    by (simp add: take_add)
  with Cons show ?case by simp
qed

lemma slices_eq_chunks:
  "map (\<lambda>i. slice xs (cumsum 0 (0 # ss) ! i) (cumsum 0 (0 # ss) ! (i + 1))) [0..<length ss]
     = chunks ss xs"
proof (rule nth_equalityI)
  show "length (map (\<lambda>i. slice xs (cumsum 0 (0 # ss) ! i) (cumsum 0 (0 # ss) ! (i + 1)))
          [0..<length ss]) = length (chunks ss xs)"
    by (simp add: length_chunks)
next
  fix i
  assume "i < length (map (\<lambda>i. slice xs (cumsum 0 (0 # ss) ! i) (cumsum 0 (0 # ss) ! (i + 1)))
          [0..<length ss])"
  then have i: "i < length ss" by simp
  have a: "cumsum 0 (0 # ss) ! i = sum_list (take i ss)"
    using i cumsum_nth [of i "0 # ss" 0] by simp
  have b: "cumsum 0 (0 # ss) ! (i + 1) = sum_list (take i ss) + ss ! i"
    using i cumsum_nth [of "Suc i" "0 # ss" 0] by (simp add: take_Suc_conv_app_nth)
  let ?f = "\<lambda>i. slice xs (cumsum 0 (0 # ss) ! i) (cumsum 0 (0 # ss) ! (i + 1))"
  have "map ?f [0..<length ss] ! i = ?f i"
    using i by (simp del: cumsum.simps)
  also have "\<dots> = slice xs (sum_list (take i ss)) (sum_list (take i ss) + ss ! i)"
    by (simp only: a b)
  also have "\<dots> = chunks ss xs ! i"
    using i by (simp add: slice_def chunks_nth)
  finally show "map ?f [0..<length ss] ! i = chunks ss xs ! i" .
qed

lemma length_shard_sizes: "0 < k \<Longrightarrow> length (shard_sizes n k) = k"
  by (simp add: shard_sizes_def)

lemma sum_shard_sizes: "0 < k \<Longrightarrow> sum_list (shard_sizes n k) = n"
proof -
  assume k: "0 < k"
  then have m: "n mod k \<le> k" by (simp add: less_imp_le)
  have "sum_list (shard_sizes n k) = (n mod k) * (n div k + 1) + (k - n mod k) * (n div k)"
    by (simp add: shard_sizes_def sum_list_replicate)
  also have "\<dots> = (n mod k + (k - n mod k)) * (n div k) + n mod k"
    by (simp add: algebra_simps)
  also have "\<dots> = k * (n div k) + n mod k"
    using m by simp
  also have "\<dots> = n" by simp
  finally show ?thesis .
qed

lemma shard_sizes_nth:
  "i < k \<Longrightarrow> shard_sizes n k ! i = (if i < n mod k then n div k + 1 else n div k)"
  by (auto simp: shard_sizes_def nth_append)

lemma array_split_chunks:
  "0 < k \<Longrightarrow> array_split xs k = Inr (chunks (shard_sizes (length xs) k) xs)"
  using slices_eq_chunks [of xs "shard_sizes (length xs) k"]
  by (simp add: array_split_def section_sizes_def Let_def length_shard_sizes shard_sizes_def)

lemma shard_nonempty:
  assumes "0 < k" "k \<le> length xs" "i < k"
  shows "chunks (shard_sizes (length xs) k) xs ! i \<noteq> []"
proof -
  have d: "0 < length xs div k"
    using assms by (simp add: div_greater_zero_iff)
  have s: "0 < shard_sizes (length xs) k ! i"
    using assms d by (simp add: shard_sizes_nth)
  have "sum_list (take i (shard_sizes (length xs) k)) + shard_sizes (length xs) k ! i
          \<le> sum_list (shard_sizes (length xs) k)"
  proof -
    have "sum_list (take (Suc i) (shard_sizes (length xs) k))
            \<le> sum_list (take (Suc i) (shard_sizes (length xs) k))
              + sum_list (drop (Suc i) (shard_sizes (length xs) k))"
      by simp
    also have "\<dots> = sum_list (shard_sizes (length xs) k)"
      by (metis append_take_drop_id sum_list.append)
    finally show ?thesis
      using assms by (simp add: take_Suc_conv_app_nth length_shard_sizes)
  qed
  then have "sum_list (take i (shard_sizes (length xs) k)) < length xs"
    using s assms by (simp add: sum_shard_sizes)
  then show ?thesis
    using assms s by (simp add: chunks_nth length_shard_sizes)
qed

lemma concat_distinct_disjoint:
  "distinct (concat xss) \<Longrightarrow> i < length xss \<Longrightarrow> j < length xss \<Longrightarrow> i \<noteq> j
     \<Longrightarrow> set (xss ! i) \<inter> set (xss ! j) = {}"
proof (induction xss arbitrary: i j)
  case Nil
  then show ?case by simp
next
  case (Cons xs xss)
  show ?case
  proof (cases i)
    case 0
    then obtain j' where j: "j = Suc j'" "j' < length xss"
      using Cons.prems by (cases j) auto
    then have "set (xss ! j') \<subseteq> \<Union> (set ` set xss)"
      using nth_mem by blast
    then show ?thesis
      using Cons.prems(1) 0 j by auto
  next
    case (Suc i')
    show ?thesis
    proof (cases j)
      case 0
      have "set (xss ! i') \<subseteq> \<Union> (set ` set xss)"
        using Suc Cons.prems(2) nth_mem by fastforce
      then show ?thesis
        using Cons.prems(1) 0 Suc by auto
    next
      case (Suc j')
      then show ?thesis
        using Cons.IH [of i' j'] Cons.prems \<open>i = Suc i'\<close> by simp
    qed
  qed
qed

lemma ceil_div_extra:
  fixes n k :: nat
  assumes k: "0 < k" and pos: "0 < n mod k"
  shows "(n + k - 1) div k = n div k + 1"
proof -
  define q where "q = n div k"
  define r where "r = n mod k"
  have n: "n = q * k + r" by (simp add: q_def r_def)
  have r: "0 < r" "r < k" using k pos by (simp_all add: r_def)
  have "n + k - 1 = (r - 1) + (q + 1) * k"
    using r by (simp add: n)
  moreover have "((r - 1) + (q + 1) * k) div k = (r - 1) div k + (q + 1)"
    using k by (metis add.commute div_mult_self1 not_gr_zero)
  moreover have "(r - 1) div k = 0" using r by simp
  ultimately show ?thesis by (simp add: q_def)
qed

lemma partition_chunks:
  "0 < k \<Longrightarrow> partition_experts n k = Inr (chunks (shard_sizes n k) [0..<n])"
  using array_split_chunks [of k "[0..<n]"] by (simp add: partition_experts_def)

lemma partition_shard_nonempty:
  "0 < k \<Longrightarrow> k \<le> n \<Longrightarrow> r < k \<Longrightarrow> chunks (shard_sizes n k) [0..<n] ! r \<noteq> []"
  using shard_nonempty [of k "[0..<n]" r] by simp

lemma shard_length:
  assumes "0 < k" "r < k"
  shows "length (chunks (shard_sizes n k) [0..<n] ! r) = shard_sizes n k ! r"
proof -
  let ?ss = "shard_sizes n k"
  have "sum_list (take (Suc r) ?ss) + sum_list (drop (Suc r) ?ss) = sum_list ?ss"
    by (metis append_take_drop_id sum_list.append)
  then have "sum_list (take r ?ss) + ?ss ! r \<le> n"
    using assms by (simp add: take_Suc_conv_app_nth length_shard_sizes sum_shard_sizes)
  then show ?thesis
    using assms by (simp add: chunks_nth length_shard_sizes)
qed

section \<open>Claims about the expert partition and the construction of the MoE block\<close>

text \<open>
  C6.  For \<open>nExperts \<ge> nRanks \<ge> 1\<close> the partition succeeds and has one shard per rank;
  the shards in rank order concatenate to \<open>0, \<dots>, nExperts - 1\<close>, so every expert id lies in
  the shard of exactly one rank; no shard is empty; the first \<open>nExperts mod nRanks\<close> ranks
  hold \<open>ceil (nExperts / nRanks)\<close> experts and the others \<open>floor (nExperts / nRanks)\<close>.
\<close>

theorem partition_disjoint_exhaustive_balanced:
  assumes "1 \<le> nRanks" and "nRanks \<le> nExperts"
  shows "\<exists>parts. partition_experts nExperts nRanks = Inr parts
           \<and> length parts = nRanks
           \<and> concat parts = [0..<nExperts]
           \<and> (\<forall>e<nExperts. \<exists>!r. r < nRanks \<and> e \<in> set (parts ! r))
           \<and> (\<forall>r<nRanks. parts ! r \<noteq> []
                 \<and> length (parts ! r) =
                     (if r < nExperts mod nRanks then (nExperts + nRanks - 1) div nRanks
                      else nExperts div nRanks))"
proof -
  let ?parts = "chunks (shard_sizes nExperts nRanks) [0..<nExperts]"
  have k: "0 < nRanks" using assms by simp
  have p: "partition_experts nExperts nRanks = Inr ?parts"
    using k by (rule partition_chunks)
  have len: "length ?parts = nRanks"
    using k by (simp add: length_chunks length_shard_sizes)
  have cat: "concat ?parts = [0..<nExperts]"
    using k by (simp add: concat_chunks sum_shard_sizes)
  have uniq: "\<exists>!r. r < nRanks \<and> e \<in> set (?parts ! r)" if e: "e < nExperts" for e
  proof -
    have "e \<in> set (concat ?parts)" using e cat by simp
    then obtain ys where "ys \<in> set ?parts" "e \<in> set ys" by auto
    then obtain r where r: "r < nRanks" "e \<in> set (?parts ! r)"
      using len by (auto simp: in_set_conv_nth)
    have d: "distinct (concat ?parts)" using cat by simp
    have "r' = r" if "r' < nRanks" "e \<in> set (?parts ! r')" for r'
    proof (rule ccontr)
      assume "r' \<noteq> r"
      then have "set (?parts ! r') \<inter> set (?parts ! r) = {}"
        using concat_distinct_disjoint [OF d, of r' r] that(1) r(1) len by simp
      then show False using that(2) r(2) by blast
    qed
    with r show ?thesis by blast
  qed
  have sizes: "?parts ! r \<noteq> [] \<and> length (?parts ! r) =
        (if r < nExperts mod nRanks then (nExperts + nRanks - 1) div nRanks
         else nExperts div nRanks)" if r: "r < nRanks" for r
  proof -
    have ne: "?parts ! r \<noteq> []"
      using k assms(2) r by (rule partition_shard_nonempty)
    have "length (?parts ! r) = (if r < nExperts mod nRanks then nExperts div nRanks + 1
         else nExperts div nRanks)"
      using k r by (simp add: shard_length shard_sizes_nth)
    moreover have "(nExperts + nRanks - 1) div nRanks = nExperts div nRanks + 1"
      if "r < nExperts mod nRanks"
      using that k ceil_div_extra [of nRanks nExperts] by simp
    ultimately show ?thesis using ne by simp
  qed
  show ?thesis
    using p len cat uniq sizes by blast
qed

text \<open>Witness: eight experts on three ranks give the shards 0-2, 3-5 and 6-7.\<close>

theorem partition_disjoint_exhaustive_balanced_witness:
  "(1::nat) \<le> 3 \<and> (3::nat) \<le> 8
   \<and> partition_experts 8 3 = Inr [[0, 1, 2], [3, 4, 5], [6, 7]]
   \<and> (\<exists>parts. partition_experts 8 3 = Inr parts \<and> length parts = 3
         \<and> concat parts = [0..<8]
         \<and> (\<forall>e<8. \<exists>!r. r < 3 \<and> e \<in> set (parts ! r))
         \<and> (\<forall>r<3. parts ! r \<noteq> []
               \<and> length (parts ! r) = (if r < 8 mod 3 then (8 + 3 - 1) div 3 else 8 div 3)))"
proof -
  have a: "(1::nat) \<le> 3" and b: "(3::nat) \<le> 8" by simp_all
  have v: "partition_experts 8 3 = Inr [[0, 1, 2], [3, 4, 5], [6, 7]]"
    by code_simp
  show ?thesis
    using a b v partition_disjoint_exhaustive_balanced [OF a b] by blast
qed

text \<open>
  C10.  A rank of a group of \<open>tp_size\<close> ranks is a number below \<open>tp_size\<close>.  Once the
  rank-count check has passed (\<open>tp_size \<le> num_experts\<close>) the shard of every rank is
  non-empty, and the constructor never raises the "no experts assigned" error, whatever
  the configuration and the linear method.
\<close>

theorem empty_shard_error_unreachable:
  assumes "rank < tp_size" and "tp_size \<le> num_experts config"
  shows "(\<exists>parts. partition_experts (num_experts config) tp_size = Inr parts
            \<and> rank < length parts \<and> parts ! rank \<noteq> [])
         \<and> (\<forall>r. Qwen2MoeSparseMoeBlock_init config lm rank tp_size
                  \<noteq> Inl (ValueError (RankHasNoExperts r)))"
proof -
  let ?parts = "chunks (shard_sizes (num_experts config) tp_size) [0..<num_experts config]"
  have k: "0 < tp_size" using assms(1) by simp
  have p: "partition_experts (num_experts config) tp_size = Inr ?parts"
    using k by (rule partition_chunks)
  have len: "rank < length ?parts"
    using k assms(1) by (simp add: length_chunks length_shard_sizes)
  have ne: "?parts ! rank \<noteq> []"
    using k assms(2) assms(1) by (rule partition_shard_nonempty)
  have "Qwen2MoeSparseMoeBlock_init config lm rank tp_size \<noteq> Inl (ValueError (RankHasNoExperts r))"
    for r
    using p len ne
    by (simp add: Qwen2MoeSparseMoeBlock_init_def Qwen2MoeMLP_init_def Let_def)
  with p len ne show ?thesis by blast
qed

theorem empty_shard_error_unreachable_witness:
  "(1::nat) < 3 \<and> (3::nat) \<le> 8
   \<and> partition_experts 8 3 = Inr [[0, 1, 2], [3, 4, 5], [6, 7]]
   \<and> (\<forall>r. Qwen2MoeSparseMoeBlock_init
          \<lparr>num_experts = 8, num_experts_per_tok = 2, shared_expert_intermediate_size = 0,
           hidden_act = ''silu'', norm_topk_prob = False\<rparr>
          (Some \<lparr>support_fused_moe = False\<rparr>) 1 3 \<noteq> Inl (ValueError (RankHasNoExperts r)))"
proof -
  have v: "partition_experts 8 3 = Inr [[0, 1, 2], [3, 4, 5], [6, 7]]"
    by code_simp
  have "(1::nat) < 3" by simp
  moreover have "(3::nat) \<le> num_experts \<lparr>num_experts = 8, num_experts_per_tok = 2,
      shared_expert_intermediate_size = 0, hidden_act = ''silu'', norm_topk_prob = False\<rparr>"
    by simp
  ultimately show ?thesis
    using v empty_shard_error_unreachable [of 1 3 "\<lparr>num_experts = 8, num_experts_per_tok = 2,
      shared_expert_intermediate_size = 0, hidden_act = ''silu'', norm_topk_prob = False\<rparr>"
      "Some \<lparr>support_fused_moe = False\<rparr>"]
    by simp
qed

text \<open>
  C7.  The two errors of the claim are the \<^verbatim>\<open>ValueError\<close>s of lines 145--148 (rank count
  above expert count) and 178--180 (empty local shard).  For a rank of the group, the
  constructor fails with one of them exactly when \<open>tp_size > num_experts\<close> or the local
  shard of the split is empty.  (The third \<^verbatim>\<open>ValueError\<close> of the constructor, an
  unsupported activation of the shared expert, is a different error.)
\<close>

theorem init_partition_errors_iff:
  assumes "rank < tp_size"
  shows "(\<exists>m. Qwen2MoeSparseMoeBlock_init config lm rank tp_size = Inl (ValueError m)
             \<and> (m = TpSizeGreaterThanExperts tp_size (num_experts config)
                  \<or> m = RankHasNoExperts rank))
         \<longleftrightarrow> (tp_size > num_experts config
               \<or> (\<exists>parts. partition_experts (num_experts config) tp_size = Inr parts
                     \<and> parts ! rank = []))"
proof (cases "tp_size > num_experts config")
  case True
  then show ?thesis by (simp add: Qwen2MoeSparseMoeBlock_init_def)
next
  case False
  let ?parts = "chunks (shard_sizes (num_experts config) tp_size) [0..<num_experts config]"
  have k: "0 < tp_size" using assms by simp
  have le: "tp_size \<le> num_experts config" using False by simp
  have p: "partition_experts (num_experts config) tp_size = Inr ?parts"
    using k by (rule partition_chunks)
  have len: "rank < length ?parts"
    using k assms by (simp add: length_chunks length_shard_sizes)
  have ne: "?parts ! rank \<noteq> []"
    using k le assms by (rule partition_shard_nonempty)
  have lhs: "\<not> (\<exists>m. Qwen2MoeSparseMoeBlock_init config lm rank tp_size = Inl (ValueError m)
             \<and> (m = TpSizeGreaterThanExperts tp_size (num_experts config)
                  \<or> m = RankHasNoExperts rank))"
    using False p len ne
    by (auto simp: Qwen2MoeSparseMoeBlock_init_def Qwen2MoeMLP_init_def Let_def
             split: if_splits)
  have rhs: "\<not> (\<exists>parts. partition_experts (num_experts config) tp_size = Inr parts
                     \<and> parts ! rank = [])"
    using p ne by simp
  show ?thesis using False lhs rhs by blast
qed

text \<open>
  Witness: nine ranks for eight experts fail at the rank-count check; three ranks for
  eight experts construct the block of rank 1 with experts 3, 4 and 5.
\<close>

theorem init_partition_errors_iff_witness:
  "(1::nat) < 9
   \<and> Qwen2MoeSparseMoeBlock_init
        \<lparr>num_experts = 8, num_experts_per_tok = 2, shared_expert_intermediate_size = 0,
         hidden_act = ''silu'', norm_topk_prob = False\<rparr>
        (Some \<lparr>support_fused_moe = False\<rparr>) 1 9
       = Inl (ValueError (TpSizeGreaterThanExperts 9 8))
   \<and> (\<exists>blk. Qwen2MoeSparseMoeBlock_init
        \<lparr>num_experts = 8, num_experts_per_tok = 2, shared_expert_intermediate_size = 0,
         hidden_act = ''silu'', norm_topk_prob = False\<rparr>
        (Some \<lparr>support_fused_moe = False\<rparr>) 1 3 = Inr blk
        \<and> storage blk = LocalExperts [3, 4, 5]
             [False, False, False, True, True, True, False, False])"
proof -
  let ?cfg = "\<lparr>num_experts = 8, num_experts_per_tok = 2, shared_expert_intermediate_size = 0,
         hidden_act = ''silu'', norm_topk_prob = False\<rparr>"
  have a: "(1::nat) < 9" by simp
  have "\<exists>m. Qwen2MoeSparseMoeBlock_init ?cfg (Some \<lparr>support_fused_moe = False\<rparr>) 1 9
               = Inl (ValueError m)
             \<and> (m = TpSizeGreaterThanExperts 9 (num_experts ?cfg) \<or> m = RankHasNoExperts 1)"
    using init_partition_errors_iff [OF a, of ?cfg "Some \<lparr>support_fused_moe = False\<rparr>"]
    by simp
  then have e: "Qwen2MoeSparseMoeBlock_init ?cfg (Some \<lparr>support_fused_moe = False\<rparr>) 1 9
       = Inl (ValueError (TpSizeGreaterThanExperts 9 8))"
    by (auto simp: Qwen2MoeSparseMoeBlock_init_def)
  have v: "partition_experts 8 3 = Inr [[0, 1, 2], [3, 4, 5], [6, 7]]"
    by code_simp
  have u: "[0..<8] = [0, 1, 2, 3, 4, 5, 6, 7::nat]"
    by code_simp
  have "Qwen2MoeSparseMoeBlock_init ?cfg (Some \<lparr>support_fused_moe = False\<rparr>) 1 3
      = Inr \<lparr>blk_rank = 1, blk_tp_size = 3, n_routed_experts = 8, top_k = 2,
             has_shared_expert = False,
             storage = LocalExperts [3, 4, 5]
               [False, False, False, True, True, True, False, False]\<rparr>"
    by (simp add: Qwen2MoeSparseMoeBlock_init_def dense_mode_def v u)
  then show ?thesis using a e by simp
qed

section \<open>Claim about the dense expert combination\<close>














section \<open>Claims about checkpoint loading\<close>



lemma expert_loop_nomatch:
  "\<forall>(p, wn, s, e)\<in>set tbl. \<not> py_in wn name \<Longrightarrow> expert_loop ps w tbl name = NoBreak name"
  by (induction ps w tbl name rule: expert_loop.induct) auto



lemma length_expert_params_mapping:
  "length (expert_params_mapping n lm) = (if dense_mode lm then 0 else 3 * n)"
  by (auto simp: expert_params_mapping_def dense_mode_def length_concat comp_def
      sum_list_triv split: option.splits)


text \<open>
  C4 (as the code has it).  The expert-projections table is non-empty exactly when there
  is at least one expert and the linear method is \<^verbatim>\<open>None\<close> or supports fused MoE; it
  then has three entries per expert.  For a backend without fused MoE it is empty.  When
  the stacked table has not ended the entry and no entry of the expert table matches the
  name, the entry is handled by the default branch: the name as it stands and, if the
  parameter exists, a whole-tensor load without shard or expert argument.
\<close>

theorem expert_table_active_when_fused:
  "(expert_params_mapping n lm \<noteq> [] \<longleftrightarrow> 0 < n \<and> \<not> dense_mode lm)
   \<and> length (expert_params_mapping n lm) = (if dense_mode lm then 0 else 3 * n)
   \<and> (\<forall>name1. \<not> py_in ''rotary_emb.inv_freq'' name
          \<and> stacked_loop ps w stacked_params_mapping name = NoBreak name1
          \<and> (\<forall>(p, wn, s, e)\<in>set tbl. \<not> py_in wn name1)
        \<longrightarrow> load_entry ps tbl name w = default_load ps w name1
            \<and> (\<forall>param. ps name1 = Some param
                   \<longrightarrow> load_entry ps tbl name w = Loaded name1 (w, None, None)))"
proof -
  have len: "length (expert_params_mapping n lm) = (if dense_mode lm then 0 else 3 * n)"
    by (rule length_expert_params_mapping)
  have ne: "expert_params_mapping n lm \<noteq> [] \<longleftrightarrow> 0 < n \<and> \<not> dense_mode lm"
  proof -
    have "expert_params_mapping n lm \<noteq> [] \<longleftrightarrow> 0 < length (expert_params_mapping n lm)"
      by simp
    also have "\<dots> \<longleftrightarrow> 0 < n \<and> \<not> dense_mode lm"
      by (simp only: len) simp
    finally show ?thesis .
  qed
  have fall: "load_entry ps tbl name w = default_load ps w name1
        \<and> (\<forall>param. ps name1 = Some param
               \<longrightarrow> load_entry ps tbl name w = Loaded name1 (w, None, None))"
    if a: "\<not> py_in ''rotary_emb.inv_freq'' name"
      and b: "stacked_loop ps w stacked_params_mapping name = NoBreak name1"
      and c: "\<forall>(p, wn, s, e)\<in>set tbl. \<not> py_in wn name1" for name1
  proof -
    have "expert_loop ps w tbl name1 = NoBreak name1"
      using c by (rule expert_loop_nomatch)
    then have d: "load_entry ps tbl name w = default_load ps w name1"
      using a b by (simp add: load_entry_def)
    have "default_load ps w name1 = Loaded name1 (w, None, None)" if "ps name1 = Some param"
      for param
      using that by (simp add: default_load_def extra_bias_def unassigned_expert_def)
    with d show ?thesis by simp
  qed
  show ?thesis using ne len fall by blast
qed

theorem expert_table_active_when_fused_witness:
  "expert_params_mapping 1 None =
     [(''w1'', ''experts.0.gate_proj'', Some (ShardIdx 0), 0),
      (''w1'', ''experts.0.up_proj'', Some (ShardIdx 1), 0),
      (''w2'', ''experts.0.down_proj'', None, 0)]
   \<and> length (expert_params_mapping 60 (Some \<lparr>support_fused_moe = False\<rparr>)) = 0
   \<and> load_entry ([''model.layers.0.mlp.gate.weight'' \<mapsto> []] :: unit params)
        (expert_params_mapping 1 None) ''model.layers.0.mlp.gate.weight'' ()
       = Loaded ''model.layers.0.mlp.gate.weight'' ((), None, None)
   \<and> load_entry ([''model.layers.0.mlp.w1.weight'' \<mapsto> []] :: unit params)
        (expert_params_mapping 1 None) ''model.layers.0.mlp.experts.0.up_proj.weight'' ()
       = Loaded ''model.layers.0.mlp.w1.weight'' ((), Some (ShardIdx 1), Some 0)"
proof -
  let ?ps = "[''model.layers.0.mlp.gate.weight'' \<mapsto> []] :: unit params"
  let ?n = "''model.layers.0.mlp.gate.weight''"
  have t: "expert_params_mapping 1 None =
     [(''w1'', ''experts.0.gate_proj'', Some (ShardIdx 0), 0),
      (''w1'', ''experts.0.up_proj'', Some (ShardIdx 1), 0),
      (''w2'', ''experts.0.down_proj'', None, 0)]"
    by code_simp
  have a: "\<not> py_in ''rotary_emb.inv_freq'' ?n" by code_simp
  have b: "stacked_loop ?ps () stacked_params_mapping ?n = NoBreak ?n" by code_simp
  have c: "\<forall>(p, wn, s, e)\<in>set (expert_params_mapping 1 None). \<not> py_in wn ?n"
    unfolding t by code_simp
  have d: "?ps ?n = Some []" by simp
  have e: "dense_mode (Some \<lparr>support_fused_moe = False\<rparr>)" by (simp add: dense_mode_def)
  note inst = expert_table_active_when_fused [of 60 "Some \<lparr>support_fused_moe = False\<rparr>" ?n ?ps
        "()" "expert_params_mapping 1 None"]
  have l: "length (expert_params_mapping 60 (Some \<lparr>support_fused_moe = False\<rparr>)) = 0"
    using inst e by simp
  have v: "load_entry ?ps (expert_params_mapping 1 None) ?n () = Loaded ?n ((), None, None)"
    using inst a b c d by blast
  have r: "load_entry ([''model.layers.0.mlp.w1.weight'' \<mapsto> []] :: unit params)
        (expert_params_mapping 1 None) ''model.layers.0.mlp.experts.0.up_proj.weight'' ()
       = Loaded ''model.layers.0.mlp.w1.weight'' ((), Some (ShardIdx 1), Some 0)"
    by code_simp
  show ?thesis
    using t l v r by (intro conjI)
qed

text \<open>
  The claim as written fails: for a backend that does not support fused MoE the table of
  a model with 60 experts is empty.
\<close>

theorem expert_table_empty_without_fused_counterexample:
  "dense_mode (Some \<lparr>support_fused_moe = False\<rparr>)
   \<and> \<not> support_fused_moe \<lparr>support_fused_moe = False\<rparr>
   \<and> expert_params_mapping 60 (Some \<lparr>support_fused_moe = False\<rparr>) = []"
  by (simp add: expert_params_mapping_def dense_mode_def)







section \<open>Claims about the creation of the quantized weights\<close>

text \<open>
  C9.  \<open>create_weights\<close> fails exactly when a per-partition size differs from the full
  size, then with the tensor-parallel \<^verbatim>\<open>ValueError\<close>; with equal sizes it returns the
  weights.
\<close>

theorem create_weights_sharding_error_iff:
  "(create_weights g ipp opp isz osz = Inl (ValueError QuipNoTensorParallel)
      \<longleftrightarrow> (isz \<noteq> ipp \<or> osz \<noteq> opp))
   \<and> ((\<exists>e. create_weights g ipp opp isz osz = Inl e) \<longleftrightarrow> (isz \<noteq> ipp \<or> osz \<noteq> opp))
   \<and> (isz = ipp \<and> osz = opp \<longrightarrow> (\<exists>wts. create_weights g ipp opp isz osz = Inr wts))"
proof (cases "isz \<noteq> ipp \<or> osz \<noteq> opp")
  case True
  then have "create_weights g ipp opp isz osz = Inl (ValueError QuipNoTensorParallel)"
    by (simp add: create_weights_def)
  with True show ?thesis by auto
next
  case False
  obtain hl Kl q_in where l: "g isz = (hl, Kl, q_in)" by (cases "g isz") auto
  obtain hr Kr q_out where r: "g osz = (hr, Kr, q_out)" by (cases "g osz") auto
  have "\<exists>wts. create_weights g ipp opp isz osz = Inr wts"
    using False l r by (simp add: create_weights_def)
  with False show ?thesis by auto
qed

theorem create_weights_sharding_error_iff_witness:
  "create_weights get_hadK_block 8 16 16 16 = Inl (ValueError QuipNoTensorParallel)
   \<and> create_weights get_hadK_block 16 8 16 16 = Inl (ValueError QuipNoTensorParallel)
   \<and> (\<exists>wts. create_weights get_hadK_block 16 16 16 16 = Inr wts)"
proof -
  have a: "create_weights get_hadK_block 8 16 16 16 = Inl (ValueError QuipNoTensorParallel)"
    using create_weights_sharding_error_iff [of get_hadK_block 8 16 16 16] by simp
  have b: "create_weights get_hadK_block 16 8 16 16 = Inl (ValueError QuipNoTensorParallel)"
    using create_weights_sharding_error_iff [of get_hadK_block 16 8 16 16] by simp
  have c: "\<exists>wts. create_weights get_hadK_block 16 16 16 16 = Inr wts"
    using create_weights_sharding_error_iff [of get_hadK_block 16 16 16 16] by simp
  show ?thesis using a b c by simp
qed

text \<open>
  C5 (as the code has it).  \<open>create_weights\<close> has no error but the tensor-parallel one
  and does not check the geometry of \<open>Qidxs\<close>: it allocates \<open>q_out_features\<close> rows and
  \<open>q_in_features div pack\<close> columns.  The row count therefore always agrees with the
  padded output features, and \<open>cols * pack\<close> agrees with the padded input features
  exactly when \<open>pack\<close> divides them.
\<close>

theorem create_weights_geometry:
  "(\<forall>e. create_weights g ipp opp isz osz = Inl e \<longrightarrow> e = ValueError QuipNoTensorParallel)
   \<and> (isz = ipp \<and> osz = opp \<longrightarrow> (\<exists>wts. create_weights g ipp opp isz osz = Inr wts))
   \<and> (\<forall>wts. create_weights g ipp opp isz osz = Inr wts \<longrightarrow>
         wf_qidxs (Qidxs wts)
         \<and> qrows (Qidxs wts) = q_out_features wts
         \<and> qcols (Qidxs wts) = q_in_features wts div pack
         \<and> (qcols (Qidxs wts) * pack = q_in_features wts \<longleftrightarrow> pack dvd q_in_features wts)
         \<and> q_in_features wts = snd (snd (g isz)) \<and> q_out_features wts = snd (snd (g osz))
         \<and> length (SU wts) = isz \<and> length (SV wts) = osz)"
proof -
  have a: "\<forall>e. create_weights g ipp opp isz osz = Inl e \<longrightarrow> e = ValueError QuipNoTensorParallel"
    by (auto simp: create_weights_def Let_def split: prod.splits if_splits)
  have b: "isz = ipp \<and> osz = opp \<longrightarrow> (\<exists>wts. create_weights g ipp opp isz osz = Inr wts)"
    by (auto simp: create_weights_def Let_def split: prod.splits)
  have d: "(n div pack * pack = n) = (pack dvd n)" for n :: nat
    unfolding pack_def by presburger
  have c: "wf_qidxs (Qidxs wts)
         \<and> qrows (Qidxs wts) = q_out_features wts
         \<and> qcols (Qidxs wts) = q_in_features wts div pack
         \<and> (qcols (Qidxs wts) * pack = q_in_features wts \<longleftrightarrow> pack dvd q_in_features wts)
         \<and> q_in_features wts = snd (snd (g isz)) \<and> q_out_features wts = snd (snd (g osz))
         \<and> length (SU wts) = isz \<and> length (SV wts) = osz"
    if "create_weights g ipp opp isz osz = Inr wts" for wts
    using that
    by (auto simp: create_weights_def Let_def wf_qidxs_def d split: prod.splits if_splits)
  show ?thesis using a b c by blast
qed

theorem create_weights_geometry_witness:
  "create_weights get_hadK_block 16 8 16 8
     = Inr \<lparr>K_left = 1, K_right = 1, q_in_features = 16, q_out_features = 8,
            had_left = None, had_right = None,
            Qidxs = \<lparr>qrows = 8, qcols = 2, qdata = replicate 8 (replicate 2 0)\<rparr>,
            SU = replicate 16 0, SV = replicate 8 0\<rparr>
   \<and> (2::nat) * pack = 16"
proof -
  let ?w = "\<lparr>K_left = 1, K_right = 1, q_in_features = 16, q_out_features = 8,
            had_left = None, had_right = None,
            Qidxs = \<lparr>qrows = 8, qcols = 2, qdata = replicate 8 (replicate 2 0)\<rparr>,
            SU = replicate 16 0, SV = replicate 8 0\<rparr>"
  have v: "create_weights get_hadK_block 16 8 16 8 = Inr ?w"
    by (simp add: create_weights_def get_hadK_block_def pack_def)
  have "qcols (Qidxs ?w) * pack = q_in_features ?w \<longleftrightarrow> pack dvd q_in_features ?w"
    using create_weights_geometry [of get_hadK_block 16 8 16 8] v by blast
  then show ?thesis using v by (simp add: pack_def)
qed

text \<open>
  The claim as written fails: for an input size of 4, a power of two that is not a
  multiple of \<open>pack\<close>, \<open>create_weights\<close> returns weights whose \<open>Qidxs\<close> has no column,
  so that \<open>cols * pack = 0\<close> differs from the 4 padded input features, and no error is
  raised.
\<close>

theorem create_weights_inconsistent_geometry_counterexample:
  "create_weights get_hadK_block 4 16 4 16
     = Inr \<lparr>K_left = 1, K_right = 1, q_in_features = 4, q_out_features = 16,
            had_left = None, had_right = None,
            Qidxs = \<lparr>qrows = 16, qcols = 0, qdata = replicate 16 []\<rparr>,
            SU = replicate 4 0, SV = replicate 16 0\<rparr>
   \<and> (0::nat) * pack \<noteq> 4"
  by (simp add: create_weights_def get_hadK_block_def pack_def)

section \<open>Claims about the application of the quantized layer\<close>

lemma err_bind_Inr [simp]: "err_bind (Inr v) f = f v"
  by (simp add: err_bind_def)

lemma err_bind_Inl [simp]: "err_bind (Inl e) f = Inl e"
  by (simp add: err_bind_def)

lemma apply_weights_stages:
  "apply_weights K g w x bias =
     err_bind (rotated_input K w x) (\<lambda>rx.
     err_bind (if nrows rx < 32 then gemv_product K g w rx else dense_product K g w rx) (\<lambda>y.
     err_bind (scaled_output K w y) (view_then_bias x bias)))"
proof (cases "reshape_rows x")
  case (Inl e)
  then show ?thesis by (simp add: apply_weights_def rotated_input_def)
next
  case r: (Inr rx0)
  show ?thesis
  proof (cases "bcast_vec (*) rx0 (SU w)")
    case (Inl e)
    then show ?thesis using r by (simp add: apply_weights_def rotated_input_def)
  next
    case s: (Inr rx1)
    show ?thesis
    proof (cases "matmul_hadUt_cuda K rx1 (had_left w) (K_left w) (q_in_features w)")
      case (Inl e)
      then show ?thesis using r s by (simp add: apply_weights_def rotated_input_def)
    next
      case t: (Inr rx)
      have pre: "rotated_input K w x = Inr rx"
        using r s t by (simp add: rotated_input_def)
      show ?thesis
        unfolding pre
        using r s t
        by (simp add: apply_weights_def Let_def gemv_product_def dense_product_def
            scaled_output_def view_then_bias_def err_bind_def split: sum.splits)
    qed
  qed
qed

















lemma dot_append:
  "length a = length c \<Longrightarrow> dot (a @ b) (c @ d) = dot a c + dot b d"
  by (simp add: dot_def)

lemma gather_accumulate_dense:
  assumes "\<forall>q. length (codebook q) = 8"
  shows "length xr = length qs * 8
           \<Longrightarrow> gather_accumulate codebook xr qs = dot xr (concat (map codebook qs))"
proof (induction qs arbitrary: xr)
  case Nil
  then show ?case by (simp add: dot_def)
next
  case (Cons q qs)
  have l: "length (take 8 xr) = length (codebook q)"
    using Cons.prems assms by simp
  have r: "length (drop 8 xr) = length qs * 8" using Cons.prems by simp
  have "dot xr (concat (map codebook (q # qs)))
          = dot (take 8 xr @ drop 8 xr) (codebook q @ concat (map codebook qs))"
    by simp
  also have "\<dots> = dot (take 8 xr) (codebook q) + dot (drop 8 xr) (concat (map codebook qs))"
    using l by (rule dot_append)
  finally show ?case using Cons.IH [OF r] by simp
qed

lemma gemv_spec_eq_dense:
  assumes "quip_gemv K = quip_gemv_spec" "quip_decompress K = quip_decompress_spec"
    and "wf_qidxs (Qidxs w)" "\<forall>q. length (codebook q) = 8"
    and "wf_mat rx" "ncols rx = qcols (Qidxs w) * 8"
  shows "gemv_product K codebook w rx = dense_product K codebook w rx"
proof -
  let ?Q = "Qidxs w"
  have rows_eq: "map (gather_accumulate codebook xr) (qdata ?Q)
        = map (dot xr) (map (\<lambda>qr. concat (map codebook qr)) (qdata ?Q))"
    if "xr \<in> set (rows rx)" for xr
  proof -
    have lx: "length xr = qcols ?Q * 8"
      using that assms(5,6) by (simp add: wf_mat_def)
    have "gather_accumulate codebook xr qr = dot xr (concat (map codebook qr))"
      if "qr \<in> set (qdata ?Q)" for qr
    proof -
      have "length qr = qcols ?Q" using that assms(3) by (simp add: wf_qidxs_def)
      then show ?thesis using gather_accumulate_dense [OF assms(4)] lx by simp
    qed
    then show ?thesis by simp
  qed
  have "dense_product K codebook w rx
      = Inr \<lparr>ncols = qrows ?Q,
             rows = map (\<lambda>xr. map (dot xr) (map (\<lambda>qr. concat (map codebook qr)) (qdata ?Q)))
                      (rows rx)\<rparr>"
    using assms(2,3,6)
    by (simp add: dense_product_def quip_decompress_spec_def matmul_T_def empty_mat_def
        nrows_def wf_qidxs_def)
  moreover have "gemv_product K codebook w rx
      = Inr \<lparr>ncols = qrows ?Q,
             rows = map (\<lambda>xr. map (gather_accumulate codebook xr) (qdata ?Q)) (rows rx)\<rparr>"
    using assms(1) by (simp add: gemv_product_def quip_gemv_spec_def)
  ultimately show ?thesis using rows_eq by simp
qed

text \<open>
  C1.  With \<open>N\<close> the row count of the flattened input (which the forward rotation
  keeps): whatever the kernels compute, for \<open>N < 32\<close> the product used by
  \<open>apply_weights\<close> is the gather-and-accumulate kernel, and for \<open>N \<ge> 32\<close> it is the
  dequantization followed by the dense product.  For the product kernels of the
  specification, over exact arithmetic, the two products of the same rows are equal, and
  so are the two results of the whole operation.
\<close>

theorem strategy_dispatch_and_equivalence:
  assumes "rotated_input K w x = Inr rx" and "nrows rx = flat_rows x"
  shows "(flat_rows x < 32 \<longrightarrow>
            apply_weights K codebook w x bias
              = err_bind (gemv_product K codebook w rx)
                  (\<lambda>y. err_bind (scaled_output K w y) (view_then_bias x bias)))
         \<and> (32 \<le> flat_rows x \<longrightarrow>
            apply_weights K codebook w x bias
              = err_bind (dense_product K codebook w rx)
                  (\<lambda>y. err_bind (scaled_output K w y) (view_then_bias x bias)))
         \<and> (quip_gemv K = quip_gemv_spec \<and> quip_decompress K = quip_decompress_spec
              \<and> wf_qidxs (Qidxs w) \<and> (\<forall>q. length (codebook q) = 8)
              \<and> wf_mat rx \<and> ncols rx = qcols (Qidxs w) * 8
            \<longrightarrow> gemv_product K codebook w rx = dense_product K codebook w rx
                \<and> err_bind (gemv_product K codebook w rx)
                     (\<lambda>y. err_bind (scaled_output K w y) (view_then_bias x bias))
                    = err_bind (dense_product K codebook w rx)
                     (\<lambda>y. err_bind (scaled_output K w y) (view_then_bias x bias)))"
proof -
  have st: "apply_weights K codebook w x bias
      = err_bind (if nrows rx < 32 then gemv_product K codebook w rx
                  else dense_product K codebook w rx)
          (\<lambda>y. err_bind (scaled_output K w y) (view_then_bias x bias))"
    using assms(1) by (simp only: apply_weights_stages err_bind_Inr)
  have a: "flat_rows x < 32 \<longrightarrow>
            apply_weights K codebook w x bias
              = err_bind (gemv_product K codebook w rx)
                  (\<lambda>y. err_bind (scaled_output K w y) (view_then_bias x bias))"
    using st assms(2) by simp
  have b: "32 \<le> flat_rows x \<longrightarrow>
            apply_weights K codebook w x bias
              = err_bind (dense_product K codebook w rx)
                  (\<lambda>y. err_bind (scaled_output K w y) (view_then_bias x bias))"
    using st assms(2) by simp
  have c: "gemv_product K codebook w rx = dense_product K codebook w rx"
    if "quip_gemv K = quip_gemv_spec" "quip_decompress K = quip_decompress_spec"
      "wf_qidxs (Qidxs w)" "\<forall>q. length (codebook q) = 8"
      "wf_mat rx" "ncols rx = qcols (Qidxs w) * 8"
    using that by (rule gemv_spec_eq_dense)
  show ?thesis using a b c by simp
qed




text \<open>
  Witness for C1: the worked layer on two rows and on a batch of 32 rows.  With a
  gather-and-accumulate kernel that only reports an error, the two rows fail and the
  batch does not: the batch never reaches that kernel.  With the kernels of the
  specification the two products of the two rows agree.
\<close>

theorem strategy_dispatch_and_equivalence_witness:
  "flat_rows example_input < 32 \<and> 32 \<le> flat_rows example_batch
   \<and> apply_weights failing_gemv_kernels example_codebook example_weights example_input None
       = Inl RuntimeError
   \<and> apply_weights failing_gemv_kernels example_codebook example_weights example_batch None
       = Inr \<lparr>shape = [32, 2], data = concat (replicate 32 [2, 2])\<rparr>
   \<and> gemv_product spec_kernels example_codebook example_weights
        \<lparr>ncols = 8, rows = [[1, 0, 0, 0, 0, 0, 0, 1], [0, 1, 0, 0, 0, 0, 0, 0]]\<rparr>
       = Inr \<lparr>ncols = 2, rows = [[2, 4], [1, 2]]\<rparr>
   \<and> dense_product spec_kernels example_codebook example_weights
        \<lparr>ncols = 8, rows = [[1, 0, 0, 0, 0, 0, 0, 1], [0, 1, 0, 0, 0, 0, 0, 0]]\<rparr>
       = Inr \<lparr>ncols = 2, rows = [[2, 4], [1, 2]]\<rparr>
   \<and> apply_weights spec_kernels example_codebook example_weights example_input None
       = Inr \<lparr>shape = [2, 1, 2], data = [2, 2, 1, 1]\<rparr>"
proof -
  let ?rx = "\<lparr>ncols = 8, rows = [[1, 0, 0, 0, 0, 0, 0, 1], [0, 1, 0, 0, 0, 0, 0, 0]]\<rparr>"
  let ?rb = "\<lparr>ncols = 8, rows = replicate 32 [1, 0, 0, 0, 0, 0, 0, 1 :: real]\<rparr>"
  let ?post = "\<lambda>K x y. err_bind (scaled_output K example_weights y) (view_then_bias x None)"
  have f1: "flat_rows example_input = 2"
    by (simp add: flat_rows_def example_input_def)
  have f2: "flat_rows example_batch = 32"
    by (simp add: flat_rows_def example_batch_def length_concat sum_list_replicate)
  have l1: "flat_rows example_input < 32" using f1 by simp
  have l2: "32 \<le> flat_rows example_batch" using f2 by simp
  have m1: "nrows ?rx = flat_rows example_input" by (simp add: f1 nrows_def)
  have m2: "nrows ?rb = flat_rows example_batch" by (simp add: f2 nrows_def)
  \<comment> \<open>the failing kernel: which product is used shows in the result\<close>
  have p1: "rotated_input failing_gemv_kernels example_weights example_input = Inr ?rx"
    by code_simp
  have p2: "rotated_input failing_gemv_kernels example_weights example_batch = Inr ?rb"
    by code_simp
  have "apply_weights failing_gemv_kernels example_codebook example_weights example_input None
      = err_bind (gemv_product failing_gemv_kernels example_codebook example_weights ?rx)
          (?post failing_gemv_kernels example_input)"
    using strategy_dispatch_and_equivalence [OF p1 m1, of example_codebook None] l1
    by (elim conjE) (rule mp)
  also have "\<dots> = Inl RuntimeError"
    by (simp add: gemv_product_def failing_gemv_kernels_def)
  finally have e1: "apply_weights failing_gemv_kernels example_codebook example_weights
      example_input None = Inl RuntimeError" .
  have "apply_weights failing_gemv_kernels example_codebook example_weights example_batch None
      = err_bind (dense_product failing_gemv_kernels example_codebook example_weights ?rb)
          (?post failing_gemv_kernels example_batch)"
    using strategy_dispatch_and_equivalence [OF p2 m2, of example_codebook None] l2
    by (elim conjE) (rule mp)
  also have "\<dots> = Inr \<lparr>shape = [32, 2], data = concat (replicate 32 [2, 2])\<rparr>"
    by code_simp
  finally have e2: "apply_weights failing_gemv_kernels example_codebook example_weights
      example_batch None = Inr \<lparr>shape = [32, 2], data = concat (replicate 32 [2, 2])\<rparr>" .
  \<comment> \<open>the kernels of the specification: the two products agree\<close>
  have k1: "quip_gemv spec_kernels = quip_gemv_spec"
    and k2: "quip_decompress spec_kernels = quip_decompress_spec"
    by (simp_all add: spec_kernels_def)
  have q: "wf_qidxs (Qidxs example_weights)"
    by (simp add: example_weights_def wf_qidxs_def)
  have c: "\<forall>q. length (example_codebook q) = 8"
    by (simp add: example_codebook_def)
  have r1: "rotated_input spec_kernels example_weights example_input = Inr ?rx"
    by code_simp
  have w1: "wf_mat ?rx" by (simp add: wf_mat_def)
  have n1: "ncols ?rx = qcols (Qidxs example_weights) * 8"
    by (simp add: example_weights_def)
  have g: "gemv_product spec_kernels example_codebook example_weights ?rx
       = Inr \<lparr>ncols = 2, rows = [[2, 4], [1, 2]]\<rparr>"
    by code_simp
  have "gemv_product spec_kernels example_codebook example_weights ?rx
      = dense_product spec_kernels example_codebook example_weights ?rx"
    using strategy_dispatch_and_equivalence [OF r1 m1, of example_codebook None]
      k1 k2 q c w1 n1 by blast
  then have d: "dense_product spec_kernels example_codebook example_weights ?rx
       = Inr \<lparr>ncols = 2, rows = [[2, 4], [1, 2]]\<rparr>"
    using g by (simp only:)
  have a1: "apply_weights spec_kernels example_codebook example_weights example_input None
       = Inr \<lparr>shape = [2, 1, 2], data = [2, 2, 1, 1]\<rparr>"
    by code_simp
  show ?thesis
    using l1 l2 e1 e2 g d a1 by (intro conjI)
qed

end
